theory Spec2Isabelle
  imports Main "HOL-Library.Word"
begin

section \<open>JavaScript strings\<close>

text \<open>
  A JavaScript string is a sequence of UTF-16 code units. ASCII literals of
  \<^verbatim>\<open>App.tsx\<close> are written \<open>js ''...''\<close>; every other character of a literal is
  given by its code unit.
\<close>

type_synonym code_unit = "16 word"
type_synonym jsstring = "code_unit list"

definition js :: "string \<Rightarrow> jsstring" where
  "js cs = map of_char cs"

text \<open>
  \<^verbatim>\<open>String.prototype.trim\<close> strips white space and line terminators from both
  ends: TAB, LF, VT, FF, CR, SP, NBSP, the Unicode space separators, LS, PS and
  the byte order mark.
\<close>

definition whitespace_units :: "code_unit list" where
  "whitespace_units =
     [0x9, 0xA, 0xB, 0xC, 0xD, 0x20, 0xA0, 0x1680,
      0x2000, 0x2001, 0x2002, 0x2003, 0x2004, 0x2005, 0x2006, 0x2007,
      0x2008, 0x2009, 0x200A, 0x2028, 0x2029, 0x202F, 0x205F, 0x3000, 0xFEFF]"

definition is_whitespace :: "code_unit \<Rightarrow> bool" where
  "is_whitespace c = (c \<in> set whitespace_units)"

definition trim :: "jsstring \<Rightarrow> jsstring" where
  "trim t = rev (dropWhile is_whitespace (rev (dropWhile is_whitespace t)))"

text \<open>
  What \<^verbatim>\<open>+\<close> and a template literal make of a value that may be
  \<^verbatim>\<open>undefined\<close>.
\<close>

definition to_string :: "jsstring option \<Rightarrow> jsstring" where
  "to_string v = (case v of None \<Rightarrow> js ''undefined'' | Some t \<Rightarrow> t)"

section \<open>Data of the component\<close>

datatype Status = S_idle | S_uploading | S_transcribing | S_error

datatype PromptStatus = P_idle | P_loading | P_error

text \<open>The prompt constant of lines 11 to 43.\<close>

definition LESSON_GENERATION_SYSTEM_PROMPT :: jsstring where
  "LESSON_GENERATION_SYSTEM_PROMPT =
       js ''**Role:** You are acting as a highly experienced Artificial ''
     @ js ''Intelligence (AI) and Software Testing Expert who has vast k''
     @ js ''nowledge in Generative AI tools and their application in the''
     @ js '' software development lifecycle.''
     @ [0xA, 0xA]
     @ js ''**Goal:** Your task is to transform the provided video trans''
     @ js ''cript/text into a clear, comprehensive, and engaging lesson ''
     @ js ''content for an educational course.''
     @ [0xA, 0xA]
     @ js ''**Instruction Guidelines:**''
     @ [0xA]
     @ js ''1.  **Maintain Expert Tone:** Write the content in an **acce''
     @ js ''ssible, clear, and professional** tone, suitable for a cours''
     @ js ''e covering technical subjects related to AI and testing.''
     @ [0xA]
     @ js ''2.  **Adherence to Source:** The core content must be **stri''
     @ js ''ctly based on the information provided in the input text/tra''
     @ js ''nscript**. Do not invent main topics.''
     @ [0xA]
     @ js ''3.  **Enhancement for Clarity:** To enhance understanding an''
     @ js ''d provide practical context, you are **encouraged to introdu''
     @ js ''ce short, relevant examples, analogies, or brief supplementa''
     @ js ''ry explanations** that support and elaborate on the points m''
     @ js ''ade in the transcript. These additions must be concise and d''
     @ js ''irectly related to the topic.''
     @ [0xA]
     @ js ''4.  **Language Output:** You must deliver the final lesson c''
     @ js ''ontent **entirely in Turkish (T''
     @ [0xFC]
     @ js ''rk''
     @ [0xE7]
     @ js ''e)**, ensuring the translation is natural and high-quality.''
     @ [0xA]
     @ js ''5.  **Target Audience:** The content is intended for profess''
     @ js ''ionals and students seeking to understand how to effectively''
     @ js '' integrate AI into their testing and development processes.''
     @ [0xA, 0xA]
     @ js ''**Structure Template for Output:**''
     @ [0xA]
     @ js ''The final Turkish output must follow this structured templat''
     @ js ''e for every lesson:''
     @ [0xA, 0xA]
     @ js ''### ''
     @ [0xD83C, 0xDDF9, 0xD83C, 0xDDF7]
     @ js '' Ders ''
     @ [0x130, 0xE7]
     @ js ''eri''
     @ [0x11F]
     @ js ''i Ba''
     @ [0x15F]
     @ js ''l''
     @ [0x131, 0x11F, 0x131]
     @ js '' (Lesson Content Title)''
     @ [0xA, 0xA]
     @ js ''**I. Giri''
     @ [0x15F]
     @ js '' ve Konuya Genel Bak''
     @ [0x131, 0x15F]
     @ js '' (Introduction and Overview)**''
     @ [0xA]
     @ js ''* Bu dersin temel amac''
     @ [0x131]
     @ js '' ve hedefleri.''
     @ [0xA]
     @ js ''* Konunun genel AI/Test s''
     @ [0xFC]
     @ js ''recindeki yeri.''
     @ [0xA, 0xA]
     @ js ''**II. Temel Kavramlar ve Tan''
     @ [0x131]
     @ js ''mlar (Core Concepts and Definitions)**''
     @ [0xA]
     @ js ''* Konunun anahtar terimlerinin net ve anla''
     @ [0x15F, 0x131]
     @ js ''l''
     @ [0x131]
     @ js ''r tan''
     @ [0x131]
     @ js ''mlar''
     @ [0x131]
     @ js ''.''
     @ [0xA]
     @ js ''* Transkriptteki ana fikirlerin ''
     @ [0xF6]
     @ js ''zetlenmesi.''
     @ [0xA, 0xA]
     @ js ''**III. Detayl''
     @ [0x131]
     @ js '' Anlat''
     @ [0x131]
     @ js ''m ve Uygulamalar (Detailed Explanation and Applications)**''
     @ [0xA]
     @ js ''* Transkriptteki ad''
     @ [0x131]
     @ js ''mlar''
     @ [0x131]
     @ js ''n veya detayl''
     @ [0x131]
     @ js '' a''
     @ [0xE7, 0x131]
     @ js ''klamalar''
     @ [0x131]
     @ js ''n madde madde veya paragraflar halinde sunulmas''
     @ [0x131]
     @ js ''.''
     @ [0xA]
     @ js ''* **[K''
     @ [0x131]
     @ js ''sa ''
     @ [0xD6]
     @ js ''rnek/Analoji Eklenecek B''
     @ [0xF6]
     @ js ''l''
     @ [0xFC]
     @ js ''m]** (Insert short, relevant example or analogy here to impr''
     @ js ''ove comprehension.)''
     @ [0xA, 0xA]
     @ js ''**IV. Uzman G''
     @ [0xF6]
     @ js ''r''
     @ [0xFC, 0x15F, 0xFC]
     @ js '' ve Pratik ''
     @ [0x130]
     @ js ''pu''
     @ [0xE7]
     @ js ''lar''
     @ [0x131]
     @ js '' (Expert Insight and Practical Tips)**''
     @ [0xA]
     @ js ''* Konuyla ilgili uzman''
     @ [0x131]
     @ js ''n deneyimlerinden dam''
     @ [0x131]
     @ js ''t''
     @ [0x131]
     @ js ''lm''
     @ [0x131, 0x15F]
     @ js '' k''
     @ [0x131]
     @ js ''sa bir ipucu veya dikkat edilmesi gereken bir nokta.''
     @ [0xA, 0xA]
     @ js ''**V. ''
     @ [0xD6]
     @ js ''zet ve Sonu''
     @ [0xE7]
     @ js '' (Summary and Conclusion)**''
     @ [0xA]
     @ js ''* Dersin en ''
     @ [0xF6]
     @ js ''nemli ''
     @ [0xE7, 0x131]
     @ js ''kar''
     @ [0x131]
     @ js ''mlar''
     @ [0x131]
     @ js ''n''
     @ [0x131]
     @ js ''n 2-3 madde ile ''
     @ [0xF6]
     @ js ''zetlenmesi.''"

text \<open>The browser's \<^verbatim>\<open>File\<close>: the component reads its name and size.\<close>

record js_file =
  fileName :: jsstring
  fileSize :: nat

text \<open>
  A thrown \<^verbatim>\<open>Error\<close> object; the handlers read its \<^verbatim>\<open>message\<close>. The SDK
  rejects with \<^verbatim>\<open>Error\<close> objects, and so does line 156.
\<close>

datatype js_error = JsError (message: jsstring)

text \<open>How an awaited promise settles.\<close>

datatype 'a settled = Fulfilled 'a | Rejected js_error

text \<open>
  What \<^verbatim>\<open>ai.files.upload\<close> resolves to: the handler passes \<^verbatim>\<open>mimeType\<close> and
  \<^verbatim>\<open>uri\<close> on as they are.
\<close>

record uploaded_file =
  mimeType :: "jsstring option"
  uri :: "jsstring option"

text \<open>
  A \<^verbatim>\<open>GenerateContentResponse\<close>, whole or one chunk of a stream: its
  \<^verbatim>\<open>text\<close> may be \<^verbatim>\<open>undefined\<close>.
\<close>

datatype gen_response = GenResponse (response_text: "jsstring option")

text \<open>
  The async iterable of \<^verbatim>\<open>generateContentStream\<close>: the chunks it yields, and
  whether it then completes or throws.
\<close>

datatype stream_end = Completes | Throws js_error

datatype response_stream =
  ResponseStream (chunks: "gen_response list") (ending: stream_end)

text \<open>The requests the component sends to the service, as a log.\<close>

datatype part = TextPart jsstring | FileDataPart "jsstring option" "jsstring option"

datatype remote_call =
    FilesUpload js_file
  | GenerateContent jsstring "part list"
  | GenerateContentStream jsstring jsstring jsstring

datatype timer_callback = ResetCopied | ResetPromptCopied

text \<open>
  The ten \<^verbatim>\<open>useState\<close> cells of \<^verbatim>\<open>App\<close>, followed by what the handlers
  reach outside the component: the configured key, the value of the file input
  behind \<^verbatim>\<open>fileInputRef\<close> (\<open>None\<close> while the input is not mounted), the
  log of remote calls, the texts written to the clipboard, the errors sent to
  the console, the clock in milliseconds and the pending timeouts with their
  due times.
\<close>

record app =
  selectedFile :: "js_file option"
  transcription :: jsstring
  status :: Status
  error :: "jsstring option"
  copied :: bool
  prompt :: jsstring
  promptResponse :: jsstring
  promptStatus :: PromptStatus
  promptError :: "jsstring option"
  promptCopied :: bool
  API_KEY :: "jsstring option"
  fileInputValue :: "jsstring option"
  remoteCalls :: "remote_call list"
  clipboardWrites :: "jsstring list"
  consoleErrors :: "js_error list"
  now :: nat
  timers :: "(nat \<times> timer_callback) list"

text \<open>The state at mount, for a given key.\<close>

definition initial :: "jsstring option \<Rightarrow> app" where
  "initial key =
     \<lparr>selectedFile = None, transcription = [], status = S_idle, error = None,
      copied = False, prompt = [], promptResponse = [], promptStatus = P_idle,
      promptError = None, promptCopied = False, API_KEY = key,
      fileInputValue = Some [], remoteCalls = [], clipboardWrites = [],
      consoleErrors = [], now = 0, timers = []\<rparr>"

text \<open>Lines 70 to 74: \<^verbatim>\<open>ai\<close> is null when the key is missing or empty.\<close>

definition ai :: "app \<Rightarrow> bool" where
  "ai s = (case API_KEY s of None \<Rightarrow> False | Some apiKey \<Rightarrow> apiKey \<noteq> [])"

section \<open>File selection\<close>

definition resetPromptState :: "app \<Rightarrow> app" where
  "resetPromptState s =
     s\<lparr>prompt := [], promptResponse := [], promptError := None,
       promptStatus := P_idle, promptCopied := False\<rparr>"

text \<open>\<^verbatim>\<open>files?.[0]\<close>: undefined for a missing or an empty file list.\<close>

definition first_file :: "js_file list option \<Rightarrow> js_file option" where
  "first_file files =
     (case files of None \<Rightarrow> None | Some [] \<Rightarrow> None | Some (file # _) \<Rightarrow> Some file)"

definition handleFileChange :: "js_file list option \<Rightarrow> app \<Rightarrow> app" where
  "handleFileChange files s =
     (case first_file files of
        None \<Rightarrow> s
      | Some file \<Rightarrow>
          resetPromptState
            (s\<lparr>error := None, transcription := [], selectedFile := Some file,
               status := S_idle\<rparr>))"

definition handleFileDrop :: "js_file list option \<Rightarrow> app \<Rightarrow> app" where
  "handleFileDrop files s =
     (case first_file files of
        None \<Rightarrow> s
      | Some file \<Rightarrow>
          resetPromptState
            (s\<lparr>error := None, transcription := [], selectedFile := Some file,
               status := S_idle\<rparr>))"

definition removeFile :: "app \<Rightarrow> app" where
  "removeFile s =
     (let s1 = resetPromptState
                 (s\<lparr>selectedFile := None, transcription := [], status := S_idle,
                    copied := False\<rparr>)
      in case fileInputValue s1 of
           None \<Rightarrow> s1
         | Some _ \<Rightarrow> s1\<lparr>fileInputValue := Some []\<rparr>)"

section \<open>Copying and the reset timers\<close>

definition setTimeout :: "timer_callback \<Rightarrow> nat \<Rightarrow> app \<Rightarrow> app" where
  "setTimeout callback delay s = s\<lparr>timers := timers s @ [(now s + delay, callback)]\<rparr>"

definition handleCopy :: "app \<Rightarrow> app" where
  "handleCopy s =
     (if transcription s = [] then s
      else setTimeout ResetCopied 2500
             (s\<lparr>clipboardWrites := clipboardWrites s @ [transcription s],
                copied := True\<rparr>))"

definition handlePromptCopy :: "app \<Rightarrow> app" where
  "handlePromptCopy s =
     (if promptResponse s = [] then s
      else setTimeout ResetPromptCopied 2500
             (s\<lparr>clipboardWrites := clipboardWrites s @ [promptResponse s],
                promptCopied := True\<rparr>))"

text \<open>
  The event loop while nothing else happens: \<open>advance d\<close> lets \<open>d\<close>
  milliseconds pass and runs the timeouts that fall due, in the order of their
  due times.
\<close>

definition fire :: "timer_callback \<Rightarrow> app \<Rightarrow> app" where
  "fire callback s =
     (case callback of
        ResetCopied \<Rightarrow> s\<lparr>copied := False\<rparr>
      | ResetPromptCopied \<Rightarrow> s\<lparr>promptCopied := False\<rparr>)"

definition is_due :: "nat \<Rightarrow> nat \<times> timer_callback \<Rightarrow> bool" where
  "is_due t timer = (fst timer \<le> t)"

definition advance :: "nat \<Rightarrow> app \<Rightarrow> app" where
  "advance d s =
     (let t = now s + d
      in fold (\<lambda>timer. fire (snd timer))
           (sort_key fst (filter (is_due t) (timers s)))
           (s\<lparr>now := t, timers := filter (\<lambda>timer. \<not> is_due t timer) (timers s)\<rparr>))"

section \<open>Transcription\<close>

text \<open>
  \<open>handleTranscribe upload generate s\<close> is one run of the handler from state
  \<open>s\<close>, where \<open>upload\<close> and \<open>generate\<close> say how the two awaited calls
  settle. A falsy upload result (\<open>Fulfilled None\<close>) throws at line 156; every
  throw lands in the one \<^verbatim>\<open>catch\<close> of line 186. A run is taken without other
  handlers in between: what another event would write while the run awaits is
  not part of it.
\<close>

definition transcribe_catch :: "js_error \<Rightarrow> app \<Rightarrow> app" where
  "transcribe_catch err s =
     s\<lparr>consoleErrors := consoleErrors s @ [err],
       error := Some (js ''An error occurred: '' @ message err
         @ js ''. If you are uploading a large file, please ensure you have a stable internet connection.''),
       status := S_error\<rparr>"

definition transcribe_result :: "gen_response \<Rightarrow> app \<Rightarrow> app" where
  "transcribe_result response s =
     (let s1 = (case response_text response of
                  None \<Rightarrow>
                    s\<lparr>error := Some (js ''Could not get a transcription. The response was empty.'')\<rparr>
                | Some resultText \<Rightarrow>
                    if resultText \<noteq> [] then s\<lparr>transcription := resultText\<rparr>
                    else s\<lparr>error := Some (js ''Could not get a transcription. The response was empty.'')\<rparr>)
      in s1\<lparr>status := S_idle\<rparr>)"

definition handleTranscribe ::
  "uploaded_file option settled \<Rightarrow> gen_response settled \<Rightarrow> app \<Rightarrow> app" where
  "handleTranscribe upload generate s =
     (case selectedFile s of
        None \<Rightarrow> s\<lparr>error := Some (js ''Please select an audio file first.'')\<rparr>
      | Some file \<Rightarrow>
          if \<not> ai s then
            s\<lparr>error := Some (js ''API key is not configured. Please set the API_KEY environment variable.'')\<rparr>
          else
            let s1 = resetPromptState
                       (s\<lparr>status := S_uploading, error := None, transcription := [],
                          copied := False\<rparr>);
                s2 = s1\<lparr>remoteCalls := remoteCalls s1 @ [FilesUpload file]\<rparr>
            in (case upload of
                  Rejected err \<Rightarrow> transcribe_catch err s2
                | Fulfilled None \<Rightarrow>
                    transcribe_catch
                      (JsError (js ''File upload failed: The API did not return a file object.'')) s2
                | Fulfilled (Some uploadedFile) \<Rightarrow>
                    (let s3 = s2\<lparr>status := S_transcribing\<rparr>;
                         audioPart = FileDataPart (mimeType uploadedFile) (uri uploadedFile);
                         textPart = TextPart (js ''Transcribe this long audio recording in its entirety. Provide a high-quality, accurate transcript of all speech.'');
                         s4 = s3\<lparr>remoteCalls := remoteCalls s3
                                @ [GenerateContent (js ''gemini-2.5-pro'') [textPart, audioPart]]\<rparr>
                     in (case generate of
                           Rejected err \<Rightarrow> transcribe_catch err s4
                         | Fulfilled response \<Rightarrow> transcribe_result response s4))))"

definition isProcessing :: "app \<Rightarrow> bool" where
  "isProcessing s = (status s = S_uploading \<or> status s = S_transcribing)"

section \<open>Lesson generation\<close>

definition setPrompt :: "jsstring \<Rightarrow> app \<Rightarrow> app" where
  "setPrompt t s = s\<lparr>prompt := t\<rparr>"

definition userPromptContents :: "jsstring \<Rightarrow> jsstring \<Rightarrow> jsstring" where
  "userPromptContents transcript instruction =
     js ''L'' @ [0xFC] @ js ''tfen a'' @ [0x15F] @ js ''a'' @ [0x11F, 0x131]
     @ js ''daki transkripte g'' @ [0xF6] @ js ''re ders i'' @ [0xE7] @ js ''eri''
     @ [0x11F] @ js ''ini olu'' @ [0x15F] @ js ''turun.'' @ [0xA, 0xA]
     @ js ''--- TRANSKR'' @ [0x130] @ js ''PT ---'' @ [0xA]
     @ transcript
     @ [0xA, 0xA] @ js ''--- KULLANICI TAL'' @ [0x130] @ js ''MATLARI / DERS BA''
     @ [0x15E] @ js ''LI'' @ [0x11E] @ js ''I ---'' @ [0xA]
     @ instruction
     @ [0xA]"

definition prompt_catch :: "js_error \<Rightarrow> app \<Rightarrow> app" where
  "prompt_catch err s =
     s\<lparr>consoleErrors := consoleErrors s @ [err],
       promptError := Some (js ''Bir hata olu'' @ [0x15F] @ js ''tu: '' @ message err),
       promptStatus := P_error\<rparr>"

text \<open>
  Line 228: the functional update appends \<^verbatim>\<open>chunk.text\<close> to the latest value;
  \<open>chunk_text\<close> is what \<^verbatim>\<open>+\<close> appends, the text itself when the chunk
  has one.
\<close>

definition chunk_text :: "gen_response \<Rightarrow> jsstring" where
  "chunk_text chunk = to_string (response_text chunk)"

definition append_chunk :: "gen_response \<Rightarrow> app \<Rightarrow> app" where
  "append_chunk chunk s = s\<lparr>promptResponse := promptResponse s @ chunk_text chunk\<rparr>"

text \<open>The \<^verbatim>\<open>for await\<close> loop over the chunks that arrive.\<close>

fun for_await :: "gen_response list \<Rightarrow> app \<Rightarrow> app" where
  "for_await [] s = s"
| "for_await (chunk # rest) s = for_await rest (append_chunk chunk s)"

text \<open>
  The states the loop passes through, which the UI renders one after the
  other: the state before the first chunk, then the state after each chunk.
\<close>

fun for_await_states :: "gen_response list \<Rightarrow> app \<Rightarrow> app list" where
  "for_await_states [] s = [s]"
| "for_await_states (chunk # rest) s = s # for_await_states rest (append_chunk chunk s)"

text \<open>Lines 204 to 225: the state in which the handler awaits the stream.\<close>

definition promptSubmit_started :: "app \<Rightarrow> app" where
  "promptSubmit_started s =
     (let s1 = s\<lparr>promptStatus := P_loading, promptError := None, promptResponse := [],
                  promptCopied := False\<rparr>
      in s1\<lparr>remoteCalls := remoteCalls s1
           @ [GenerateContentStream (js ''gemini-2.5-pro'')
                (userPromptContents (transcription s) (prompt s))
                LESSON_GENERATION_SYSTEM_PROMPT]\<rparr>)"

definition handlePromptSubmit :: "response_stream settled \<Rightarrow> app \<Rightarrow> app" where
  "handlePromptSubmit outcome s =
     (if trim (prompt s) = [] \<or> transcription s = [] then
        s\<lparr>promptError := Some (js ''L'' @ [0xFC] @ js ''tfen bir talimat veya ba''
          @ [0x15F] @ js ''l'' @ [0x131] @ js ''k girin.'')\<rparr>
      else if \<not> ai s then
        s\<lparr>promptError := Some (js ''API anahtar'' @ [0x131] @ js '' yap'' @ [0x131]
          @ js ''land'' @ [0x131] @ js ''r'' @ [0x131] @ js ''lmam'' @ [0x131, 0x15F]
          @ js ''.'')\<rparr>
      else
        (case outcome of
           Rejected err \<Rightarrow> prompt_catch err (promptSubmit_started s)
         | Fulfilled responseStream \<Rightarrow>
             (let s3 = for_await (chunks responseStream) (promptSubmit_started s)
              in (case ending responseStream of
                    Completes \<Rightarrow> s3\<lparr>promptStatus := P_idle\<rparr>
                  | Throws err \<Rightarrow> prompt_catch err s3))))"

section \<open>Observing the request log\<close>

text \<open>The instruction texts of the non-streaming generation requests of a log.\<close>

fun text_parts :: "part list \<Rightarrow> jsstring list" where
  "text_parts [] = []"
| "text_parts (TextPart t # parts) = t # text_parts parts"
| "text_parts (FileDataPart m u # parts) = text_parts parts"

fun instruction_texts :: "remote_call list \<Rightarrow> jsstring list" where
  "instruction_texts [] = []"
| "instruction_texts (GenerateContent model parts # calls) =
     text_parts parts @ instruction_texts calls"
| "instruction_texts (FilesUpload file # calls) = instruction_texts calls"
| "instruction_texts (GenerateContentStream model contents sys # calls) =
     instruction_texts calls"

section \<open>A concrete session\<close>

text \<open>
  The session of the specification's example: a file is chosen and transcribed,
  an instruction is typed, and the lesson arrives in three chunks. In
  \<open>demo_failed\<close> the stream breaks after two chunks instead; in
  \<open>demo_copied\<close> both copy buttons have then been pressed.
\<close>

definition demo_file :: js_file where
  "demo_file = \<lparr>fileName = js ''lecture.mp3'', fileSize = 5242880\<rparr>"

definition demo_file2 :: js_file where
  "demo_file2 = \<lparr>fileName = js ''talk.wav'', fileSize = 1024\<rparr>"

definition demo_uploaded :: uploaded_file where
  "demo_uploaded = \<lparr>mimeType = Some (js ''audio/mpeg''), uri = Some (js ''files/abc'')\<rparr>"

definition demo_selected :: app where
  "demo_selected = handleFileChange (Some [demo_file]) (initial (Some (js ''key'')))"

definition demo_transcribed :: app where
  "demo_transcribed =
     handleTranscribe (Fulfilled (Some demo_uploaded))
       (Fulfilled (GenResponse (Some (js ''Hello world.'')))) demo_selected"

definition demo_texts :: "jsstring list" where
  "demo_texts =
     [js ''### Summary'' @ [0xA], js ''- point one'' @ [0xA], js ''- point two'' @ [0xA]]"

definition demo_chunks :: "gen_response list" where
  "demo_chunks = map (\<lambda>t. GenResponse (Some t)) demo_texts"

definition demo_prompted :: app where
  "demo_prompted = setPrompt (js ''Summarize in 3 bullets'') demo_transcribed"

definition demo_lesson :: app where
  "demo_lesson =
     handlePromptSubmit (Fulfilled (ResponseStream demo_chunks Completes)) demo_prompted"

definition demo_failed :: app where
  "demo_failed =
     handlePromptSubmit
       (Fulfilled (ResponseStream (take 2 demo_chunks) (Throws (JsError (js ''reset'')))))
       demo_prompted"

definition demo_copied :: app where
  "demo_copied = handleCopy (handlePromptCopy demo_failed)"

definition demo_blank :: app where
  "demo_blank = setPrompt (js ''  '' @ [0x9, 0xA]) demo_transcribed"

text \<open>
  A stream whose second chunk has no text, as a chunk without text parts
  arrives from the service.
\<close>

definition demo_gap_chunks :: "gen_response list" where
  "demo_gap_chunks =
     [GenResponse (Some (js ''a'')), GenResponse None, GenResponse (Some (js ''b''))]"

text \<open>
  The specification's reading of a chunk, to compare \<open>chunk_text\<close> with: a
  chunk is a unit of text, and a chunk that carries no text delivers none.
\<close>

definition spec_chunk_text :: "gen_response \<Rightarrow> jsstring" where
  "spec_chunk_text chunk = (case response_text chunk of None \<Rightarrow> [] | Some t \<Rightarrow> t)"

section \<open>Evaluation of the handlers\<close>

lemmas handler_defs =
  resetPromptState_def first_file_def handleFileChange_def handleFileDrop_def
  removeFile_def setTimeout_def handleCopy_def handlePromptCopy_def
  transcribe_catch_def transcribe_result_def handleTranscribe_def
  prompt_catch_def promptSubmit_started_def handlePromptSubmit_def
  append_chunk_def chunk_text_def setPrompt_def ai_def initial_def

lemmas string_defs = js_def trim_def is_whitespace_def whitespace_units_def to_string_def

lemma demo_selected_fields:
  "selectedFile demo_selected = Some demo_file" "ai demo_selected"
  "remoteCalls demo_selected = []" "transcription demo_selected = []"
  by (simp_all add: demo_selected_def handler_defs string_defs)

lemma demo_transcribed_fields:
  "selectedFile demo_transcribed = Some demo_file" "ai demo_transcribed"
  "transcription demo_transcribed = js ''Hello world.''"
  "status demo_transcribed = S_idle" "timers demo_transcribed = []"
  "now demo_transcribed = 0" "copied demo_transcribed = False"
  "clipboardWrites demo_transcribed = []"
  by (simp_all add: demo_transcribed_def demo_selected_def handler_defs string_defs)

lemma demo_prompted_fields:
  "trim (prompt demo_prompted) \<noteq> []" "transcription demo_prompted \<noteq> []"
  "ai demo_prompted" "promptStatus demo_prompted = P_idle"
  by (simp_all add: demo_prompted_def demo_transcribed_def demo_selected_def
      handler_defs string_defs)

lemma demo_blank_fields:
  "trim (prompt demo_blank) = []" "promptStatus demo_blank = P_idle"
  "remoteCalls demo_blank = remoteCalls demo_transcribed"
  by (simp_all add: demo_blank_def demo_transcribed_def demo_selected_def
      handler_defs string_defs)

lemma demo_copied_fields:
  "transcription demo_copied \<noteq> []" "copied demo_copied" "promptCopied demo_copied"
  "prompt demo_copied \<noteq> []" "promptResponse demo_copied \<noteq> []"
  "promptStatus demo_copied = P_error" "promptError demo_copied \<noteq> None"
  "timers demo_copied = [(2500, ResetPromptCopied), (2500, ResetCopied)]"
  "now demo_copied = 0" "selectedFile demo_copied = Some demo_file" "ai demo_copied"
  by (simp_all add: demo_copied_def demo_failed_def demo_prompted_def demo_transcribed_def
      demo_selected_def demo_chunks_def demo_texts_def handler_defs string_defs)

section \<open>The streaming loop\<close>

lemma promptResponse_for_await:
  "promptResponse (for_await cs s) = promptResponse s @ concat (map chunk_text cs)"
  by (induction cs arbitrary: s) (simp_all add: append_chunk_def)

lemma for_await_states_nth:
  "n \<le> length cs \<Longrightarrow> for_await_states cs s ! n = for_await (take n cs) s"
proof (induction cs arbitrary: s n)
  case Nil
  then show ?case by simp
next
  case (Cons c cs)
  then show ?case by (cases n) simp_all
qed

lemma for_await_states_not_Nil: "for_await_states cs s \<noteq> []"
  by (cases cs) simp_all

lemma last_for_await_states: "last (for_await_states cs s) = for_await cs s"
  by (induction cs arbitrary: s) (simp_all add: for_await_states_not_Nil)

lemma promptResponse_started: "promptResponse (promptSubmit_started s) = []"
  by (simp add: promptSubmit_started_def)

lemma chunk_text_of_texts: "map chunk_text (map (\<lambda>t. GenResponse (Some t)) ts) = ts"
  by (induction ts) (simp_all add: chunk_text_def to_string_def)

section \<open>The timers\<close>

lemma copied_fold_fire:
  "copied (fold (\<lambda>timer. fire (snd timer)) ts s)
     = (copied s \<and> (\<forall>timer \<in> set ts. snd timer \<noteq> ResetCopied))"
  by (induction ts arbitrary: s) (auto simp add: fire_def split: timer_callback.splits)

lemma promptCopied_fold_fire:
  "promptCopied (fold (\<lambda>timer. fire (snd timer)) ts s)
     = (promptCopied s \<and> (\<forall>timer \<in> set ts. snd timer \<noteq> ResetPromptCopied))"
  by (induction ts arbitrary: s) (auto simp add: fire_def split: timer_callback.splits)

lemma transcription_fold_fire:
  "transcription (fold (\<lambda>timer. fire (snd timer)) ts s) = transcription s"
  by (induction ts arbitrary: s) (auto simp add: fire_def split: timer_callback.splits)

lemma timers_fold_fire:
  "timers (fold (\<lambda>timer. fire (snd timer)) ts s) = timers s"
  by (induction ts arbitrary: s) (auto simp add: fire_def split: timer_callback.splits)

lemma now_fold_fire:
  "now (fold (\<lambda>timer. fire (snd timer)) ts s) = now s"
  by (induction ts arbitrary: s) (auto simp add: fire_def split: timer_callback.splits)

text \<open>
  After \<open>d\<close> milliseconds without other events a flag is still set exactly
  when it was set and none of its pending resets has fallen due.
\<close>

lemma copied_advance:
  "copied (advance d s)
     = (copied s
        \<and> (\<forall>timer \<in> set (timers s). snd timer = ResetCopied \<longrightarrow> now s + d < fst timer))"
  by (auto simp add: advance_def Let_def copied_fold_fire is_due_def)
     (rule ccontr, auto simp add: not_less)

lemma promptCopied_advance:
  "promptCopied (advance d s)
     = (promptCopied s
        \<and> (\<forall>timer \<in> set (timers s).
              snd timer = ResetPromptCopied \<longrightarrow> now s + d < fst timer))"
  by (auto simp add: advance_def Let_def promptCopied_fold_fire is_due_def)
     (rule ccontr, auto simp add: not_less)

lemma transcription_advance: "transcription (advance d s) = transcription s"
  by (simp add: advance_def Let_def transcription_fold_fire)

lemma timers_advance:
  "timers (advance d s) = filter (\<lambda>timer. \<not> is_due (now s + d) timer) (timers s)"
  by (simp add: advance_def Let_def timers_fold_fire)

lemma now_advance: "now (advance d s) = now s + d"
  by (simp add: advance_def Let_def now_fold_fire)

section \<open>Transcription runs\<close>

text \<open>
  C1. In a run of \<open>handleTranscribe\<close> from a state with a selected file and a
  configured key, where the upload resolves to a file object and the generation
  request resolves with a non-empty text, the status ends at idle, the stored
  transcription is exactly the returned text, and no error is set.
\<close>

theorem transcribe_success_stores_text:
  assumes "selectedFile s = Some file" and "ai s" and "resultText \<noteq> []"
  shows "status (handleTranscribe (Fulfilled (Some uploadedFile))
                   (Fulfilled (GenResponse (Some resultText))) s) = S_idle
       \<and> transcription (handleTranscribe (Fulfilled (Some uploadedFile))
                   (Fulfilled (GenResponse (Some resultText))) s) = resultText
       \<and> error (handleTranscribe (Fulfilled (Some uploadedFile))
                   (Fulfilled (GenResponse (Some resultText))) s) = None"
  using assms by (simp add: handleTranscribe_def transcribe_result_def resetPromptState_def)

theorem transcribe_success_stores_text_witness:
  "selectedFile demo_selected = Some demo_file \<and> ai demo_selected
   \<and> js ''Hello world.'' \<noteq> []
   \<and> status (handleTranscribe (Fulfilled (Some demo_uploaded))
             (Fulfilled (GenResponse (Some (js ''Hello world.'')))) demo_selected) = S_idle
   \<and> transcription (handleTranscribe (Fulfilled (Some demo_uploaded))
             (Fulfilled (GenResponse (Some (js ''Hello world.'')))) demo_selected)
       = js ''Hello world.''"
  using transcribe_success_stores_text
    [of demo_selected demo_file "js ''Hello world.''" demo_uploaded]
  by (simp add: demo_selected_fields js_def)

text \<open>
  C4. In a run where the upload resolves to a file object and the response
  carries no text (its text is undefined or the empty string), the fixed
  "empty response" message is set as the error, the status ends at idle and not
  at error, and the transcription stays empty.
\<close>

theorem transcribe_empty_text_soft_failure:
  assumes "selectedFile s = Some file" and "ai s"
    and "resultText = None \<or> resultText = Some []"
  shows "status (handleTranscribe (Fulfilled (Some uploadedFile))
                   (Fulfilled (GenResponse resultText)) s) = S_idle
       \<and> error (handleTranscribe (Fulfilled (Some uploadedFile))
                   (Fulfilled (GenResponse resultText)) s)
           = Some (js ''Could not get a transcription. The response was empty.'')
       \<and> transcription (handleTranscribe (Fulfilled (Some uploadedFile))
                   (Fulfilled (GenResponse resultText)) s) = []"
  using assms
  by (auto simp add: handleTranscribe_def transcribe_result_def resetPromptState_def)

theorem transcribe_empty_text_soft_failure_witness:
  "selectedFile demo_selected = Some demo_file \<and> ai demo_selected
   \<and> status (handleTranscribe (Fulfilled (Some demo_uploaded))
                (Fulfilled (GenResponse (Some []))) demo_selected) = S_idle
   \<and> status (handleTranscribe (Fulfilled (Some demo_uploaded))
                (Fulfilled (GenResponse (Some []))) demo_selected) \<noteq> S_error
   \<and> error (handleTranscribe (Fulfilled (Some demo_uploaded))
                (Fulfilled (GenResponse (Some []))) demo_selected) \<noteq> None
   \<and> status (handleTranscribe (Fulfilled (Some demo_uploaded))
                (Fulfilled (GenResponse None)) demo_selected) = S_idle"
  using transcribe_empty_text_soft_failure
    [of demo_selected demo_file "Some []" demo_uploaded]
    transcribe_empty_text_soft_failure
    [of demo_selected demo_file None demo_uploaded]
  by (simp add: demo_selected_fields)

text \<open>
  C5 (as the code has it). In every run that reaches the second phase, the log
  grows by the upload and then by exactly one non-streaming generation request,
  to the model \<^verbatim>\<open>gemini-2.5-pro\<close>, whose parts are the fixed instruction text
  of line 170 followed by the reference to the uploaded file.
\<close>

theorem transcribe_request_instruction:
  assumes "selectedFile s = Some file" and "ai s"
  shows "remoteCalls (handleTranscribe (Fulfilled (Some uploadedFile)) generate s)
     = remoteCalls s
       @ [FilesUpload file,
          GenerateContent (js ''gemini-2.5-pro'')
            [TextPart (js ''Transcribe this long audio recording in its entirety. Provide a high-quality, accurate transcript of all speech.''),
             FileDataPart (mimeType uploadedFile) (uri uploadedFile)]]"
  using assms
  by (cases generate)
     (simp_all add: handleTranscribe_def transcribe_catch_def transcribe_result_def
        resetPromptState_def Let_def split: option.splits)

theorem transcribe_request_instruction_witness:
  "selectedFile demo_selected = Some demo_file \<and> ai demo_selected
   \<and> instruction_texts (remoteCalls demo_transcribed)
       = [js ''Transcribe this long audio recording in its entirety. Provide a high-quality, accurate transcript of all speech.'']"
  using transcribe_request_instruction
    [of demo_selected demo_file demo_uploaded
        "Fulfilled (GenResponse (Some (js ''Hello world.'')))"]
  by (simp add: demo_selected_fields demo_transcribed_def)

text \<open>
  The instruction the specification quotes is not the one that is sent: in the
  example session the only instruction text in the log differs from it.
\<close>

theorem transcribe_request_instruction_counterexample:
  "instruction_texts (remoteCalls demo_transcribed)
     \<noteq> [js ''transcribe this audio recording in its entirety, accurately and completely'']"
  by (simp add: demo_transcribed_def demo_selected_def handler_defs js_def)

text \<open>
  C8. In a run where the upload fails, by rejecting or by resolving to no file
  object, the status ends at error, the error message is the fixed prefix, the
  cause's message and the fixed suffix, the log grows by the upload alone (no
  generation request is issued), and the transcription stays empty.
\<close>

theorem transcribe_upload_failure:
  assumes "selectedFile s = Some file" and "ai s"
  shows "status (handleTranscribe (Rejected err) generate s) = S_error
       \<and> error (handleTranscribe (Rejected err) generate s)
           = Some (js ''An error occurred: '' @ message err
               @ js ''. If you are uploading a large file, please ensure you have a stable internet connection.'')
       \<and> remoteCalls (handleTranscribe (Rejected err) generate s)
           = remoteCalls s @ [FilesUpload file]
       \<and> transcription (handleTranscribe (Rejected err) generate s) = []
       \<and> status (handleTranscribe (Fulfilled None) generate s) = S_error
       \<and> error (handleTranscribe (Fulfilled None) generate s)
           = Some (js ''An error occurred: ''
               @ js ''File upload failed: The API did not return a file object.''
               @ js ''. If you are uploading a large file, please ensure you have a stable internet connection.'')
       \<and> remoteCalls (handleTranscribe (Fulfilled None) generate s)
           = remoteCalls s @ [FilesUpload file]
       \<and> transcription (handleTranscribe (Fulfilled None) generate s) = []"
  using assms
  by (simp add: handleTranscribe_def transcribe_catch_def resetPromptState_def)

theorem transcribe_upload_failure_witness:
  "selectedFile demo_selected = Some demo_file \<and> ai demo_selected
   \<and> status (handleTranscribe (Rejected (JsError (js ''Network down'')))
        (Fulfilled (GenResponse (Some (js ''Hello world.'')))) demo_selected) = S_error
   \<and> remoteCalls (handleTranscribe (Rejected (JsError (js ''Network down'')))
        (Fulfilled (GenResponse (Some (js ''Hello world.'')))) demo_selected)
       = [FilesUpload demo_file]
   \<and> transcription (handleTranscribe (Fulfilled None)
        (Fulfilled (GenResponse (Some (js ''Hello world.'')))) demo_selected) = []"
  using transcribe_upload_failure
    [of demo_selected demo_file "JsError (js ''Network down'')"
        "Fulfilled (GenResponse (Some (js ''Hello world.'')))"]
  by (simp add: demo_selected_fields)

section \<open>Lesson generation runs\<close>

text \<open>
  What the loop appends. In a streaming run of \<open>handlePromptSubmit\<close> that
  passes validation, for every chunk list and every \<open>n\<close> up to its length,
  the response rendered after the first \<open>n\<close> chunks is the concatenation,
  in delivery order, of what line 228 appends for each of them; for chunks that
  all carry texts \<open>ts\<close> this is the concatenation of the first \<open>n\<close>
  texts. When the stream completes, the status is idle; for a stream without
  chunks the response is the empty string.
\<close>

theorem streaming_response_is_prefix_concat:
  assumes "trim (prompt s) \<noteq> []" and "transcription s \<noteq> []" and "ai s"
  shows "(n \<le> length cs \<longrightarrow>
            promptResponse (for_await_states cs (promptSubmit_started s) ! n)
              = concat (map chunk_text (take n cs)))
       \<and> (n \<le> length ts \<longrightarrow>
            promptResponse
              (for_await_states (map (\<lambda>t. GenResponse (Some t)) ts)
                 (promptSubmit_started s) ! n)
              = concat (take n ts))
       \<and> promptResponse (handlePromptSubmit (Fulfilled (ResponseStream cs Completes)) s)
           = concat (map chunk_text cs)
       \<and> promptStatus (handlePromptSubmit (Fulfilled (ResponseStream cs Completes)) s) = P_idle
       \<and> promptResponse (handlePromptSubmit (Fulfilled (ResponseStream [] Completes)) s) = []
       \<and> promptStatus (handlePromptSubmit (Fulfilled (ResponseStream [] Completes)) s) = P_idle"
proof -
  have "concat (map chunk_text (take n (map (\<lambda>t. GenResponse (Some t)) ts)))
          = concat (take n ts)"
    using chunk_text_of_texts [of "take n ts"] by (simp add: take_map)
  with assms show ?thesis
    by (simp add: handlePromptSubmit_def for_await_states_nth promptResponse_for_await
        promptResponse_started)
qed

theorem streaming_response_is_prefix_concat_witness:
  "trim (prompt demo_prompted) \<noteq> [] \<and> transcription demo_prompted \<noteq> [] \<and> ai demo_prompted
   \<and> (2::nat) \<le> length demo_chunks \<and> (2::nat) \<le> length demo_texts
   \<and> promptResponse (for_await_states demo_chunks (promptSubmit_started demo_prompted) ! 2)
       = js ''### Summary'' @ [0xA] @ js ''- point one'' @ [0xA]
   \<and> promptResponse demo_lesson
       = js ''### Summary'' @ [0xA] @ js ''- point one'' @ [0xA] @ js ''- point two'' @ [0xA]
   \<and> promptStatus demo_lesson = P_idle"
  using streaming_response_is_prefix_concat [of demo_prompted 2 demo_chunks demo_texts]
  by (simp add: demo_prompted_fields demo_lesson_def demo_chunks_def demo_texts_def
      chunk_text_def to_string_def)

text \<open>
  C2. The response after the first chunks is the concatenation of those chunks
  only while every chunk carries text. Line 228 appends \<^verbatim>\<open>chunk.text\<close>
  unchecked, where line 179 tests the same field of a response before it is
  stored: for the stream of \<open>a\<close>, a chunk without text and \<open>b\<close>, the
  response is \<open>aundefined\<close> after two chunks and \<open>aundefinedb\<close> at the
  end, with the status idle, while the chunks' texts concatenate to \<open>ab\<close>.
\<close>

theorem streaming_undefined_chunk_text:
  "promptResponse (for_await_states demo_gap_chunks (promptSubmit_started demo_prompted) ! 2)
     = js ''aundefined''
   \<and> concat (map spec_chunk_text (take 2 demo_gap_chunks)) = js ''a''
   \<and> promptResponse
         (handlePromptSubmit (Fulfilled (ResponseStream demo_gap_chunks Completes)) demo_prompted)
       = js ''aundefinedb''
   \<and> promptStatus
         (handlePromptSubmit (Fulfilled (ResponseStream demo_gap_chunks Completes)) demo_prompted)
       = P_idle
   \<and> concat (map spec_chunk_text demo_gap_chunks) = js ''ab''
   \<and> promptResponse
         (handlePromptSubmit (Fulfilled (ResponseStream demo_gap_chunks Completes)) demo_prompted)
       \<noteq> concat (map spec_chunk_text demo_gap_chunks)"
  by (simp add: handlePromptSubmit_def demo_prompted_fields demo_gap_chunks_def
      append_chunk_def promptResponse_started chunk_text_def spec_chunk_text_def
      to_string_def js_def)

text \<open>
  C9. In a run that passes validation and whose stream throws after some
  chunks, the status is error, the error message is the fixed prefix followed
  by the cause's message, and the response is the one of the last state of the
  loop: the concatenation of the chunks that arrived before the throw.
\<close>

theorem stream_exception_keeps_partial_response:
  assumes "trim (prompt s) \<noteq> []" and "transcription s \<noteq> []" and "ai s"
  shows "promptStatus (handlePromptSubmit (Fulfilled (ResponseStream cs (Throws err))) s)
           = P_error
       \<and> promptError (handlePromptSubmit (Fulfilled (ResponseStream cs (Throws err))) s)
           = Some (js ''Bir hata olu'' @ [0x15F] @ js ''tu: '' @ message err)
       \<and> promptResponse (handlePromptSubmit (Fulfilled (ResponseStream cs (Throws err))) s)
           = promptResponse (last (for_await_states cs (promptSubmit_started s)))
       \<and> promptResponse (handlePromptSubmit (Fulfilled (ResponseStream cs (Throws err))) s)
           = concat (map chunk_text cs)"
  using assms
  by (simp add: handlePromptSubmit_def prompt_catch_def last_for_await_states
      promptResponse_for_await promptResponse_started Let_def)

theorem stream_exception_keeps_partial_response_witness:
  "trim (prompt demo_prompted) \<noteq> [] \<and> transcription demo_prompted \<noteq> [] \<and> ai demo_prompted
   \<and> promptStatus demo_failed = P_error
   \<and> promptResponse demo_failed = js ''### Summary'' @ [0xA] @ js ''- point one'' @ [0xA]"
  using stream_exception_keeps_partial_response
    [of demo_prompted "take 2 demo_chunks" "JsError (js ''reset'')"]
  by (simp add: demo_prompted_fields demo_failed_def demo_chunks_def demo_texts_def
      chunk_text_def to_string_def append_chunk_def promptResponse_started)

text \<open>
  C7. When the instruction is empty after trimming, or the transcription is
  empty, \<open>handlePromptSubmit\<close> only sets the fixed Turkish validation message:
  the rest of the state is as before, so the log of remote calls has not grown
  and the prompt status and the response are unchanged.
\<close>

theorem submit_validation_short_circuit:
  assumes "trim (prompt s) = [] \<or> transcription s = []"
  shows "handlePromptSubmit outcome s
           = s\<lparr>promptError := Some (js ''L'' @ [0xFC] @ js ''tfen bir talimat veya ba''
               @ [0x15F] @ js ''l'' @ [0x131] @ js ''k girin.'')\<rparr>
       \<and> remoteCalls (handlePromptSubmit outcome s) = remoteCalls s
       \<and> promptStatus (handlePromptSubmit outcome s) = promptStatus s
       \<and> promptResponse (handlePromptSubmit outcome s) = promptResponse s"
  using assms by (auto simp add: handlePromptSubmit_def)

theorem submit_validation_short_circuit_witness:
  "trim (prompt demo_blank) = []
   \<and> remoteCalls (handlePromptSubmit (Fulfilled (ResponseStream demo_chunks Completes))
        demo_blank) = remoteCalls demo_blank
   \<and> promptStatus (handlePromptSubmit (Fulfilled (ResponseStream demo_chunks Completes))
        demo_blank) = P_idle
   \<and> promptError (handlePromptSubmit (Fulfilled (ResponseStream demo_chunks Completes))
        demo_blank) \<noteq> None
   \<and> transcription demo_selected = []
   \<and> remoteCalls (handlePromptSubmit (Fulfilled (ResponseStream demo_chunks Completes))
        (setPrompt (js ''Summarize'') demo_selected)) = []"
  using submit_validation_short_circuit
    [of demo_blank "Fulfilled (ResponseStream demo_chunks Completes)"]
    submit_validation_short_circuit
    [of "setPrompt (js ''Summarize'') demo_selected"
        "Fulfilled (ResponseStream demo_chunks Completes)"]
  by (simp add: demo_blank_fields demo_selected_fields setPrompt_def)

section \<open>File selection and the copy flags\<close>

text \<open>
  C3. From any state, choosing a file (through the file input or by dropping
  it; the first file of the list) stores it, clears the transcription and the
  transcription error, sets the status to idle, and sets the prompt, the prompt
  response, the prompt status, the prompt error and the lesson copied flag to
  their initial values.
\<close>

theorem select_file_resets:
  assumes "first_file files = Some file"
  shows "selectedFile (handleFileChange files s) = Some file
       \<and> transcription (handleFileChange files s) = []
       \<and> error (handleFileChange files s) = None
       \<and> status (handleFileChange files s) = S_idle
       \<and> prompt (handleFileChange files s) = []
       \<and> promptResponse (handleFileChange files s) = []
       \<and> promptStatus (handleFileChange files s) = P_idle
       \<and> promptError (handleFileChange files s) = None
       \<and> promptCopied (handleFileChange files s) = False
       \<and> selectedFile (handleFileDrop files s) = Some file
       \<and> transcription (handleFileDrop files s) = []
       \<and> error (handleFileDrop files s) = None
       \<and> status (handleFileDrop files s) = S_idle
       \<and> prompt (handleFileDrop files s) = []
       \<and> promptResponse (handleFileDrop files s) = []
       \<and> promptStatus (handleFileDrop files s) = P_idle
       \<and> promptError (handleFileDrop files s) = None
       \<and> promptCopied (handleFileDrop files s) = False"
  using assms by (simp add: handleFileChange_def handleFileDrop_def resetPromptState_def)

theorem select_file_resets_witness:
  "first_file (Some [demo_file2, demo_file]) = Some demo_file2
   \<and> transcription demo_copied \<noteq> [] \<and> promptStatus demo_copied = P_error
   \<and> promptCopied demo_copied
   \<and> transcription (handleFileChange (Some [demo_file2, demo_file]) demo_copied) = []
   \<and> promptStatus (handleFileChange (Some [demo_file2, demo_file]) demo_copied) = P_idle
   \<and> promptCopied (handleFileDrop (Some [demo_file2, demo_file]) demo_copied) = False
   \<and> selectedFile (handleFileDrop (Some [demo_file2, demo_file]) demo_copied) = Some demo_file2"
  using select_file_resets [of "Some [demo_file2, demo_file]" demo_file2 demo_copied]
  by (simp add: first_file_def demo_copied_fields)

text \<open>
  C10. Choosing a file, through the input or by dropping it, writes neither the
  transcript copied flag nor the pending timers: both are as before, whatever
  the event carries. \<open>removeFile\<close> sets the flag to false, and so does every
  run of \<open>handleTranscribe\<close> that passes its two checks. So a flag set by an
  earlier copy is still set in the new file's session, until its timer fires.
\<close>

theorem select_file_keeps_copied_flag:
  "copied (handleFileChange files s) = copied s
   \<and> timers (handleFileChange files s) = timers s
   \<and> copied (handleFileDrop files s) = copied s
   \<and> timers (handleFileDrop files s) = timers s
   \<and> copied (removeFile s) = False
   \<and> (selectedFile s = Some file \<longrightarrow> ai s \<longrightarrow>
        copied (handleTranscribe upload generate s) = False)"
  by (simp add: handleFileChange_def handleFileDrop_def removeFile_def
      resetPromptState_def handleTranscribe_def transcribe_catch_def transcribe_result_def
      Let_def
      split: option.split settled.split)

theorem select_file_keeps_copied_flag_witness:
  "copied demo_copied
   \<and> copied (handleFileChange (Some [demo_file2]) demo_copied)
   \<and> transcription (handleFileChange (Some [demo_file2]) demo_copied) = []
   \<and> selectedFile (handleFileChange (Some [demo_file2]) demo_copied) = Some demo_file2
   \<and> copied (advance 2499 (handleFileChange (Some [demo_file2]) demo_copied))
   \<and> \<not> copied (advance 2500 (handleFileChange (Some [demo_file2]) demo_copied))
   \<and> \<not> copied (removeFile demo_copied)
   \<and> selectedFile demo_copied = Some demo_file \<and> ai demo_copied
   \<and> \<not> copied (handleTranscribe (Fulfilled None) (Rejected (JsError [])) demo_copied)"
  using select_file_keeps_copied_flag
    [of "Some [demo_file2]" demo_copied demo_file "Fulfilled None" "Rejected (JsError [])"]
  by (simp add: demo_copied_fields copied_advance first_file_def handleFileChange_def
      resetPromptState_def)

text \<open>
  C6 (as the code has it). A copy of an empty text leaves the state as it is:
  nothing is written to the clipboard and the flag keeps its value. A copy of a
  non-empty text writes it to the clipboard, sets the flag and schedules one
  reset 2500 ms later; timers of earlier copies stay pending. With no other
  event, the flag is false from 2500 ms on, and before that it is set exactly
  as long as no reset scheduled by an earlier copy has fallen due: with none
  pending, it is set for exactly the 2500 ms. The same holds for the lesson
  copy and its flag.
\<close>

theorem copy_flag_window:
  "(transcription s = [] \<longrightarrow> handleCopy s = s)
   \<and> (transcription s \<noteq> [] \<longrightarrow>
        clipboardWrites (handleCopy s) = clipboardWrites s @ [transcription s]
        \<and> copied (handleCopy s)
        \<and> timers (handleCopy s) = timers s @ [(now s + 2500, ResetCopied)]
        \<and> (2500 \<le> d \<longrightarrow> \<not> copied (advance d (handleCopy s)))
        \<and> (d < 2500 \<longrightarrow>
             copied (advance d (handleCopy s))
               = (\<forall>timer \<in> set (timers s).
                    snd timer = ResetCopied \<longrightarrow> now s + d < fst timer)))
   \<and> (promptResponse s = [] \<longrightarrow> handlePromptCopy s = s)
   \<and> (promptResponse s \<noteq> [] \<longrightarrow>
        clipboardWrites (handlePromptCopy s) = clipboardWrites s @ [promptResponse s]
        \<and> promptCopied (handlePromptCopy s)
        \<and> timers (handlePromptCopy s) = timers s @ [(now s + 2500, ResetPromptCopied)]
        \<and> (2500 \<le> d \<longrightarrow> \<not> promptCopied (advance d (handlePromptCopy s)))
        \<and> (d < 2500 \<longrightarrow>
             promptCopied (advance d (handlePromptCopy s))
               = (\<forall>timer \<in> set (timers s).
                    snd timer = ResetPromptCopied \<longrightarrow> now s + d < fst timer)))"
  by (auto simp add: handleCopy_def handlePromptCopy_def setTimeout_def copied_advance
      promptCopied_advance)

theorem copy_flag_window_witness:
  "transcription demo_transcribed \<noteq> [] \<and> timers demo_transcribed = []
   \<and> copied (handleCopy demo_transcribed)
   \<and> clipboardWrites (handleCopy demo_transcribed) = [js ''Hello world.'']
   \<and> copied (advance 2499 (handleCopy demo_transcribed))
   \<and> \<not> copied (advance 2500 (handleCopy demo_transcribed))
   \<and> transcription demo_selected = []
   \<and> handleCopy demo_selected = demo_selected"
  using copy_flag_window [of demo_transcribed 2499] copy_flag_window [of demo_transcribed 2500]
    copy_flag_window [of demo_selected 0]
  by (simp add: demo_transcribed_fields demo_selected_fields js_def)

text \<open>
  The timer of a superseded copy does reset the flag early: after a copy at
  0 ms and a second copy at 2000 ms, the flag set by the second copy is false
  500 ms later, when the first copy's timer fires.
\<close>

theorem copy_flag_window_counterexample:
  "transcription (advance 2000 (handleCopy demo_transcribed)) \<noteq> []
   \<and> copied (handleCopy (advance 2000 (handleCopy demo_transcribed)))
   \<and> now (advance 500 (handleCopy (advance 2000 (handleCopy demo_transcribed))))
       = now (handleCopy (advance 2000 (handleCopy demo_transcribed))) + 500
   \<and> \<not> copied (advance 500 (handleCopy (advance 2000 (handleCopy demo_transcribed))))"
  by (simp add: copied_advance transcription_advance timers_advance now_advance
      handleCopy_def setTimeout_def is_due_def demo_transcribed_fields js_def)

end
